theory Spec2Isabelle
  imports Main
begin

section \<open>JavaScript strings\<close>

text \<open>
  A JavaScript string is modelled as a \<open>string\<close>. Only four string operations occur in
  the fetchers: \<open>startsWith\<close>, \<open>includes\<close>, and \<open>replace\<close> with the two anchored
  patterns \<^verbatim>\<open>/^\//\<close> and \<^verbatim>\<open>/^\.?\//\<close>.
\<close>

definition str_startsWith :: "string \<Rightarrow> string \<Rightarrow> bool" where
  "str_startsWith s p = (take (length p) s = p)"

fun str_includes :: "string \<Rightarrow> string \<Rightarrow> bool" where
  "str_includes [] p = (p = [])"
| "str_includes (c # cs) p = (str_startsWith (c # cs) p \<or> str_includes cs p)"

text \<open>\<^verbatim>\<open>src.replace(/^\//, '')\<close>: one leading slash is removed, when there is one.\<close>

definition replace_leading_slash :: "string \<Rightarrow> string" where
  "replace_leading_slash s = (if str_startsWith s ''/'' then drop 1 s else s)"

text \<open>
  \<^verbatim>\<open>src.replace(/^\.?\//, '')\<close>: a leading \<open>./\<close> is removed, or else a leading \<open>/\<close>;
  the pattern matches once, at the start only.
\<close>

definition replace_leading_dot_slash :: "string \<Rightarrow> string" where
  "replace_leading_dot_slash s =
     (if str_startsWith s ''./'' then drop 2 s
      else if str_startsWith s ''/'' then drop 1 s
      else s)"

section \<open>Faults\<close>

text \<open>Every exception the modelled code can raise inside its \<open>try\<close> blocks.\<close>

datatype error = TypeError

section \<open>The parsed readme markup\<close>

text \<open>
  \<^verbatim>\<open>tempDiv.innerHTML = html\<close> hands the markup to the browser's parser, which accepts
  every string. Markup is represented by the forest of nodes it parses to, and a forest
  stands for its own serialisation when \<^verbatim>\<open>tempDiv.innerHTML\<close> is read back.
  An element carries its tag name, its attributes in order, and its children.
\<close>

datatype node = Text string | Element string "(string \<times> string) list" "node list"

type_synonym html = "node list"

fun getAttribute :: "node \<Rightarrow> string \<Rightarrow> string option" where
  "getAttribute (Text t) a = None"
| "getAttribute (Element tag attrs kids) a = map_of attrs a"

fun set_attr :: "(string \<times> string) list \<Rightarrow> string \<Rightarrow> string \<Rightarrow> (string \<times> string) list" where
  "set_attr [] a v = [(a, v)]"
| "set_attr ((k, w) # attrs) a v = (if k = a then (k, v) # attrs else (k, w) # set_attr attrs a v)"

fun setAttribute :: "node \<Rightarrow> string \<Rightarrow> string \<Rightarrow> node" where
  "setAttribute (Text t) a v = Text t"
| "setAttribute (Element tag attrs kids) a v = Element tag (set_attr attrs a v) kids"

text \<open>\<^verbatim>\<open>querySelectorAll('img')\<close>: the image elements below the container, in document order.\<close>

fun img_elements :: "node \<Rightarrow> node list" where
  "img_elements (Text t) = []"
| "img_elements (Element tag attrs kids) =
     (if tag = ''img'' then [Element tag attrs kids] else []) @ concat (map img_elements kids)"

definition querySelectorAll_img :: "html \<Rightarrow> node list" where
  "querySelectorAll_img doc = concat (map img_elements doc)"

section \<open>Repository records and fetch outcomes\<close>

record owner_rec =
  login :: string

record repo =
  repo_id :: nat
  name :: string
  owner :: owner_rec
  description :: "string option"
  default_branch :: "string option"
  fork :: bool
  languages_url :: string

text \<open>\<^verbatim>\<open>{ ...repo, imageUrls: urls }\<close>: the repository's own fields, and the image URLs.\<close>

record repo_with_images = repo +
  imageUrls :: "string list"

text \<open>
  A \<open>fetch\<close> either rejects (no response arrived) or resolves to a response with its
  \<open>ok\<close> flag. Reading the body (\<open>text()\<close>, \<open>json()\<close>) can reject as well: the body is
  \<open>None\<close> then.
\<close>

datatype 'b response = Response (ok: bool) (body: "'b option")

datatype 'b outcome = Rejected | Resolved "'b response"

section \<open>Projects.js: the listing and the readme images of each card\<close>

definition GITHUB_USERNAME :: string where
  "GITHUB_USERNAME = ''tyler-bravin''"

text \<open>\<^verbatim>\<open>repo.default_branch || "main"\<close>: an absent or empty branch name is replaced.\<close>

definition defaultBranch :: "'a repo_scheme \<Rightarrow> string" where
  "defaultBranch r =
     (case default_branch r of
        None \<Rightarrow> ''main''
      | Some b \<Rightarrow> if b = [] then ''main'' else b)"

text \<open>\<^verbatim>\<open>reposData.filter(repo => !repo.fork).slice(0, 6)\<close>\<close>

definition listed_repos :: "repo list \<Rightarrow> repo list" where
  "listed_repos reposData = take 6 (filter (\<lambda>r. \<not> fork r) reposData)"

text \<open>The filter stage over the images of one readme: \<^verbatim>\<open>src && src.includes('/assets/')\<close>.\<close>

definition asset_image :: "node \<Rightarrow> bool" where
  "asset_image img =
     (case getAttribute img ''src'' of
        None \<Rightarrow> False
      | Some src \<Rightarrow> src \<noteq> [] \<and> str_includes src ''/assets/'')"

text \<open>
  The map stage: the template literal of line 84. \<open>src.replace\<close> on a missing attribute
  is a fault.
\<close>

definition list_image_url :: "'a repo_scheme \<Rightarrow> string \<Rightarrow> string" where
  "list_image_url r src =
     ''https://raw.githubusercontent.com/'' @ GITHUB_USERNAME @ ''/'' @ name r @ ''/''
       @ defaultBranch r @ ''/'' @ replace_leading_slash src"

definition corrected_url :: "'a repo_scheme \<Rightarrow> node \<Rightarrow> error + string" where
  "corrected_url r img =
     (case getAttribute img ''src'' of
        None \<Rightarrow> Inl TypeError
      | Some src \<Rightarrow> Inr (list_image_url r src))"

fun map_result :: "('a \<Rightarrow> error + 'b) \<Rightarrow> 'a list \<Rightarrow> error + 'b list" where
  "map_result f [] = Inr []"
| "map_result f (x # xs) =
     (case f x of
        Inl e \<Rightarrow> Inl e
      | Inr y \<Rightarrow> (case map_result f xs of Inl e \<Rightarrow> Inl e | Inr ys \<Rightarrow> Inr (y # ys)))"

definition readme_urls :: "'a repo_scheme \<Rightarrow> html \<Rightarrow> error + string list" where
  "readme_urls r readmeHtml =
     map_result (corrected_url r) (filter asset_image (querySelectorAll_img readmeHtml))"

text \<open>The body of the per-repository \<open>async\<close> callback, given how its readme fetch settled.\<close>

definition repo_images :: "repo \<Rightarrow> html outcome \<Rightarrow> string list" where
  "repo_images r settled =
     (case settled of
        Rejected \<Rightarrow> []
      | Resolved readmeResponse \<Rightarrow>
          if \<not> ok readmeResponse then []
          else (case body readmeResponse of
                  None \<Rightarrow> []
                | Some readmeHtml \<Rightarrow>
                    (case readme_urls r readmeHtml of Inl e \<Rightarrow> [] | Inr urls \<Rightarrow> urls)))"

definition with_images :: "repo \<Rightarrow> html outcome \<Rightarrow> repo_with_images" where
  "with_images r settled = repo.extend r (repo_with_images.fields (repo_images r settled))"

text \<open>
  The listing body after \<open>json()\<close>: an array of repository records, or some other JSON value
  (the API's error object), on which \<open>.filter\<close> is not a function.
\<close>

datatype listing = RepoArray "repo list" | NotAnArray

record projects_state =
  repos :: "repo_with_images list"
  loading :: bool

definition projects_initial :: projects_state where
  "projects_initial = \<lparr>repos = [], loading = True\<rparr>"

text \<open>
  \<open>Promise.all\<close> over promises that never reject (each callback catches its own faults):
  pending while any input is pending (\<open>None\<close>), then the values in input order.
\<close>

fun promise_all :: "'a option list \<Rightarrow> 'a list option" where
  "promise_all [] = Some []"
| "promise_all (p # ps) =
     (case p of
        None \<Rightarrow> None
      | Some v \<Rightarrow> (case promise_all ps of None \<Rightarrow> None | Some vs \<Rightarrow> Some (v # vs)))"

text \<open>
  The component state reached by \<open>fetchReposAndImages\<close>, given how far its requests have
  settled: \<open>listing\<close> is the listing request and \<open>readme i\<close> the readme request of the
  \<open>i\<close>-th listed repository (\<open>None\<close>: still in flight).
\<close>

definition fetchReposAndImages ::
  "listing outcome option \<Rightarrow> (nat \<Rightarrow> html outcome option) \<Rightarrow> projects_state \<Rightarrow> projects_state" where
  "fetchReposAndImages listing readme st =
     (case listing of
        None \<Rightarrow> st
      | Some Rejected \<Rightarrow> st\<lparr>loading := False\<rparr>
      | Some (Resolved repoResponse) \<Rightarrow>
          (case body repoResponse of
             None \<Rightarrow> st\<lparr>loading := False\<rparr>
           | Some NotAnArray \<Rightarrow> st\<lparr>loading := False\<rparr>
           | Some (RepoArray data) \<Rightarrow>
               (let reposData = listed_repos data in
                case promise_all
                       (map (\<lambda>i. map_option (with_images (reposData ! i)) (readme i))
                          [0..<length reposData]) of
                  None \<Rightarrow> st
                | Some reposWithImages \<Rightarrow> st\<lparr>repos := reposWithImages, loading := False\<rparr>)))"

section \<open>ProjectModal.js: the readme of the selected repository\<close>

definition placeholder :: html where
  "placeholder = [Element ''p'' [] [Text ''Could not load README for this project.'']]"

definition detail_image_url :: "'a repo_scheme \<Rightarrow> string \<Rightarrow> string" where
  "detail_image_url r src =
     ''https://raw.githubusercontent.com/'' @ login (owner r) @ ''/'' @ name r @ ''/''
       @ defaultBranch r @ ''/'' @ replace_leading_dot_slash src"

text \<open>
  The callback of \<open>images.forEach\<close>. \<open>src.startsWith\<close> on a missing attribute is a fault;
  a source that starts with \<open>http\<close> is left as it is.
\<close>

definition correct_src :: "'a repo_scheme \<Rightarrow> node \<Rightarrow> error + node" where
  "correct_src r img =
     (case getAttribute img ''src'' of
        None \<Rightarrow> Inl TypeError
      | Some src \<Rightarrow>
          if \<not> str_startsWith src ''http''
          then Inr (setAttribute img ''src'' (detail_image_url r src))
          else Inr img)"

text \<open>
  The loop over the images, as a walk over the forest in document order: every image
  element is corrected in place, and the first fault ends the walk.
\<close>

fun correct_node :: "'a repo_scheme \<Rightarrow> node \<Rightarrow> error + node"
  and correct_nodes :: "'a repo_scheme \<Rightarrow> node list \<Rightarrow> error + node list" where
  "correct_node r (Text t) = Inr (Text t)"
| "correct_node r (Element tag attrs kids) =
     (case (if tag = ''img'' then correct_src r (Element tag attrs kids)
            else Inr (Element tag attrs kids)) of
        Inl e \<Rightarrow> Inl e
      | Inr el \<Rightarrow>
          (case correct_nodes r kids of
             Inl e \<Rightarrow> Inl e
           | Inr kids' \<Rightarrow>
               (case el of
                  Text t \<Rightarrow> Inr el
                | Element tag' attrs' ks \<Rightarrow> Inr (Element tag' attrs' kids'))))"
| "correct_nodes r [] = Inr []"
| "correct_nodes r (n # ns) =
     (case correct_node r n of
        Inl e \<Rightarrow> Inl e
      | Inr n' \<Rightarrow> (case correct_nodes r ns of Inl e \<Rightarrow> Inl e | Inr ns' \<Rightarrow> Inr (n' # ns')))"

text \<open>The value \<open>fetchReadme\<close> passes to \<open>setReadmeHtml\<close>, given how its request settled.\<close>

definition fetchReadme :: "'a repo_scheme \<Rightarrow> html outcome \<Rightarrow> html" where
  "fetchReadme r settled =
     (case settled of
        Rejected \<Rightarrow> placeholder
      | Resolved readmeResponse \<Rightarrow>
          (case body readmeResponse of
             None \<Rightarrow> placeholder
           | Some html \<Rightarrow>
               (case correct_nodes r html of Inl err \<Rightarrow> placeholder | Inr corrected \<Rightarrow> corrected)))"

text \<open>
  The component over time. Its \<open>loading\<close> flag is \<open>readme_loading\<close> here, apart from the
  flag of \<open>Projects\<close>. \<open>in_flight\<close> holds the repository of every \<open>fetchReadme\<close> call
  whose request has not settled yet; the effect has no cleanup, so nothing is ever removed
  from it except by settling. \<open>RepoChanged\<close> is a run of the effect with the new value of
  the \<open>repo\<close> prop, \<open>Settled i\<close> the arrival of the response of the \<open>i\<close>-th request in
  flight.
\<close>

record modal_state =
  repo_prop :: "repo_with_images option"
  readmeHtml :: html
  readme_loading :: bool
  in_flight :: "repo_with_images list"

definition modal_initial :: modal_state where
  "modal_initial = \<lparr>repo_prop = None, readmeHtml = [], readme_loading = True, in_flight = []\<rparr>"

datatype modal_event =
    RepoChanged "repo_with_images option"
  | Settled nat "html outcome"

fun modal_step :: "modal_state \<Rightarrow> modal_event \<Rightarrow> modal_state" where
  "modal_step s (RepoChanged None) = s\<lparr>repo_prop := None\<rparr>"
| "modal_step s (RepoChanged (Some r)) =
     s\<lparr>repo_prop := Some r, readme_loading := True, in_flight := in_flight s @ [r]\<rparr>"
| "modal_step s (Settled i settled) =
     (if i < length (in_flight s)
      then s\<lparr>readmeHtml := fetchReadme (in_flight s ! i) settled,
             readme_loading := False,
             in_flight := take i (in_flight s) @ drop (Suc i) (in_flight s)\<rparr>
      else s)"

definition modal_run :: "modal_event list \<Rightarrow> modal_state" where
  "modal_run evs = foldl modal_step modal_initial evs"

text \<open>What the modal shows of the readme: nothing without a repository.\<close>

definition readme_content :: "modal_state \<Rightarrow> html option" where
  "readme_content s =
     (case repo_prop s of
        None \<Rightarrow> None
      | Some r \<Rightarrow> Some (if readme_loading s then [Element ''p'' [] [Text ''Loading README...'']]
                        else readmeHtml s))"

section \<open>RepoLanguages.js: the language tags\<close>

datatype json =
    JNull
  | JBool bool
  | JNumber int
  | JString string
  | JArray "json list"
  | JObject "(string \<times> json) list"

text \<open>Array indices as property keys: the decimal numeral of a number below \<open>2^32 - 1\<close>.\<close>

fun index_string :: "nat \<Rightarrow> string" where
  "index_string n =
     (if n < 10 then [''0123456789'' ! n]
      else index_string (n div 10) @ [''0123456789'' ! (n mod 10)])"

definition digit_value :: "char \<Rightarrow> nat" where
  "digit_value c = length (takeWhile (\<lambda>d. d \<noteq> c) ''0123456789'')"

definition string_index :: "string \<Rightarrow> nat" where
  "string_index s = foldl (\<lambda>n c. 10 * n + digit_value c) 0 s"

definition is_array_index :: "string \<Rightarrow> bool" where
  "is_array_index s =
     (s \<noteq> [] \<and> list_all (\<lambda>c. digit_value c < 10) s
      \<and> index_string (string_index s) = s \<and> string_index s < 4294967295)"

text \<open>The keys of an object literal in the order they were first created.\<close>

fun created_keys :: "string list \<Rightarrow> string list \<Rightarrow> string list" where
  "created_keys seen [] = []"
| "created_keys seen (k # ks) =
     (if k \<in> set seen then created_keys seen ks else k # created_keys (k # seen) ks)"

text \<open>
  \<open>Object.keys\<close>: a fault on \<open>null\<close>, no keys for a boolean or a number, the indices of a
  string or an array, and for an object its array-index keys in ascending order followed by
  its other keys in creation order.
\<close>

fun Object_keys :: "json \<Rightarrow> error + string list" where
  "Object_keys JNull = Inl TypeError"
| "Object_keys (JBool b) = Inr []"
| "Object_keys (JNumber n) = Inr []"
| "Object_keys (JString s) = Inr (map index_string [0..<length s])"
| "Object_keys (JArray xs) = Inr (map index_string [0..<length xs])"
| "Object_keys (JObject kvs) =
     (let ks = created_keys [] (map fst kvs)
      in Inr (sort_key string_index (filter is_array_index ks)
              @ filter (\<lambda>k. \<not> is_array_index k) ks))"

text \<open>The \<open>languages\<close> state after \<open>fetchLanguages\<close>, given how its request settled.\<close>

definition fetchLanguages :: "json outcome \<Rightarrow> string list \<Rightarrow> string list" where
  "fetchLanguages settled languages =
     (case settled of
        Rejected \<Rightarrow> languages
      | Resolved response \<Rightarrow>
          (case body response of
             None \<Rightarrow> languages
           | Some data \<Rightarrow>
               (case Object_keys data of
                  Inl err \<Rightarrow> languages
                | Inr keys \<Rightarrow> take 3 keys)))"

text \<open>What \<open>RepoLanguages\<close> renders: \<open>null\<close> for no languages, else the list of tags.\<close>

definition RepoLanguages :: "string list \<Rightarrow> node option" where
  "RepoLanguages languages =
     (if length languages = 0 then None
      else Some (Element ''ul'' [(''class'', ''project-tags'')]
                   (map (\<lambda>lang. Element ''li'' [] [Text lang]) languages)))"

section \<open>Sample data\<close>

text \<open>Concrete repositories, readmes and responses on which the results below are instantiated.\<close>

definition sample_repo :: "nat \<Rightarrow> bool \<Rightarrow> repo" where
  "sample_repo n f =
     \<lparr>repo_id = n, name = ''demo'', owner = \<lparr>login = ''tyler-bravin''\<rparr>, description = None,
      default_branch = None, fork = f,
      languages_url = ''https://api.github.com/repos/tyler-bravin/demo/languages''\<rparr>"

definition img_src :: "string \<Rightarrow> node" where
  "img_src src = Element ''img'' [(''src'', src)] []"

definition sample_readme :: html where
  "sample_readme =
     [Element ''h1'' [] [Text ''demo''],
      Element ''p'' []
        [Element ''a'' [(''href'', ''https://example.com/ci'')]
           [img_src ''https://img.shields.io/badge/build-passing.svg''],
         img_src ''/assets/home.png'',
         Element ''img'' [(''alt'', ''logo'')] []],
      Element ''p'' []
        [img_src ''assets/logo.png'', Text ''Screens'', img_src ''docs/assets/detail.png'', img_src '''']]"

definition sample_card :: "nat \<Rightarrow> repo_with_images" where
  "sample_card n = with_images (sample_repo n False) Rejected"

definition named_card :: "nat \<Rightarrow> string \<Rightarrow> repo_with_images" where
  "named_card n nm = with_images ((sample_repo n False)\<lparr>name := nm\<rparr>) Rejected"

definition not_found_body :: string where
  "not_found_body =
     ''{'' @ [CHR 0x22] @ ''message'' @ [CHR 0x22] @ '':'' @ [CHR 0x22] @ ''Not Found''
       @ [CHR 0x22] @ ''}''"

definition sample_listing :: "repo list" where
  "sample_listing =
     [sample_repo 1 False, sample_repo 2 False, sample_repo 3 False, sample_repo 4 True,
      sample_repo 5 False, sample_repo 6 False, sample_repo 7 False]"

definition sample_readmes :: "nat \<Rightarrow> html outcome option" where
  "sample_readmes i =
     (if i = 2 then Some (Resolved (Response False (Some [Text not_found_body])))
      else Some (Resolved (Response True (Some sample_readme))))"

section \<open>Properties of the string and list helpers\<close>

lemma str_startsWith_iff: "str_startsWith s p \<longleftrightarrow> (\<exists>post. s = p @ post)"
  unfolding str_startsWith_def
proof
  assume "take (length p) s = p"
  then have "s = p @ drop (length p) s" by (metis append_take_drop_id)
  then show "\<exists>post. s = p @ post" ..
next
  assume "\<exists>post. s = p @ post"
  then show "take (length p) s = p" by auto
qed

lemma str_includes_iff: "str_includes s p \<longleftrightarrow> (\<exists>pre post. s = pre @ p @ post)"
proof (induction s)
  case Nil
  show ?case by auto
next
  case (Cons c cs)
  show ?case
  proof
    assume "str_includes (c # cs) p"
    then consider "str_startsWith (c # cs) p" | "str_includes cs p" by auto
    then show "\<exists>pre post. c # cs = pre @ p @ post"
    proof cases
      case 1
      then obtain post where "c # cs = [] @ p @ post" by (auto simp: str_startsWith_iff)
      then show ?thesis by blast
    next
      case 2
      then obtain pre post where "cs = pre @ p @ post" using Cons.IH by blast
      then have "c # cs = (c # pre) @ p @ post" by simp
      then show ?thesis by blast
    qed
  next
    assume "\<exists>pre post. c # cs = pre @ p @ post"
    then obtain pre post where e: "c # cs = pre @ p @ post" by blast
    show "str_includes (c # cs) p"
    proof (cases pre)
      case Nil
      with e have "str_startsWith (c # cs) p" by (auto simp: str_startsWith_iff)
      then show ?thesis by simp
    next
      case (Cons d pre')
      with e have "cs = pre' @ p @ post" by simp
      then have "str_includes cs p" using Cons.IH by blast
      then show ?thesis by simp
    qed
  qed
qed

lemma map_result_all_Inr:
  "(\<And>x. x \<in> set xs \<Longrightarrow> f x = Inr (g x)) \<Longrightarrow> map_result f xs = Inr (map g xs)"
  by (induction xs) auto

lemma asset_image_src:
  "asset_image img \<Longrightarrow> \<exists>src. getAttribute img ''src'' = Some src"
  by (auto simp: asset_image_def split: option.splits)

lemma readme_urls_Inr:
  "readme_urls r doc =
     Inr (map (\<lambda>img. list_image_url r (the (getAttribute img ''src'')))
            (filter asset_image (querySelectorAll_img doc)))"
  unfolding readme_urls_def
  by (rule map_result_all_Inr) (auto simp: corrected_url_def dest: asset_image_src)

section \<open>Results\<close>

subsection \<open>The Repository Lister\<close>

text \<open>
  Claim C2. For every listing response the Repository Lister removes the repositories whose
  fork flag is set and then keeps at most six of the rest, in the order received: no fork is
  listed, the count is the smaller of six and the number of non-forks, the listed
  repositories are an initial segment of the non-forks, and eight non-forks give exactly six.
\<close>

theorem lister_drops_forks_then_truncates:
  "(\<forall>r \<in> set (listed_repos rs). \<not> fork r)
   \<and> length (listed_repos rs) = min 6 (length [r \<leftarrow> rs. \<not> fork r])
   \<and> (\<exists>rest. [r \<leftarrow> rs. \<not> fork r] = listed_repos rs @ rest)
   \<and> (length [r \<leftarrow> rs. \<not> fork r] = 8 \<longrightarrow> length (listed_repos rs) = 6)"
proof (intro conjI)
  show "\<forall>r \<in> set (listed_repos rs). \<not> fork r"
    unfolding listed_repos_def by (auto dest: in_set_takeD)
  show len: "length (listed_repos rs) = min 6 (length [r \<leftarrow> rs. \<not> fork r])"
    unfolding listed_repos_def by simp
  have "[r \<leftarrow> rs. \<not> fork r] = listed_repos rs @ drop 6 [r \<leftarrow> rs. \<not> fork r]"
    unfolding listed_repos_def by simp
  then show "\<exists>rest. [r \<leftarrow> rs. \<not> fork r] = listed_repos rs @ rest" ..
  show "length [r \<leftarrow> rs. \<not> fork r] = 8 \<longrightarrow> length (listed_repos rs) = 6"
    using len by simp
qed

theorem lister_drops_forks_then_truncates_witness:
  "length [r \<leftarrow> [sample_repo 1 False, sample_repo 2 True, sample_repo 3 False, sample_repo 4 False,
                 sample_repo 5 False, sample_repo 6 True, sample_repo 7 False, sample_repo 8 False,
                 sample_repo 9 False, sample_repo 10 False]. \<not> fork r] = 8
   \<and> listed_repos [sample_repo 1 False, sample_repo 2 True, sample_repo 3 False, sample_repo 4 False,
                 sample_repo 5 False, sample_repo 6 True, sample_repo 7 False, sample_repo 8 False,
                 sample_repo 9 False, sample_repo 10 False]
       = [sample_repo 1 False, sample_repo 3 False, sample_repo 4 False, sample_repo 5 False,
          sample_repo 7 False, sample_repo 8 False]
   \<and> length (listed_repos [sample_repo 1 False, sample_repo 2 True, sample_repo 3 False, sample_repo 4 False,
                 sample_repo 5 False, sample_repo 6 True, sample_repo 7 False, sample_repo 8 False,
                 sample_repo 9 False, sample_repo 10 False]) = 6
   \<and> list_all (\<lambda>r. \<not> fork r)
        (listed_repos [sample_repo 1 False, sample_repo 2 True, sample_repo 3 False, sample_repo 4 False,
                 sample_repo 5 False, sample_repo 6 True, sample_repo 7 False, sample_repo 8 False,
                 sample_repo 9 False, sample_repo 10 False])"
  using lister_drops_forks_then_truncates
    [of "[sample_repo 1 False, sample_repo 2 True, sample_repo 3 False, sample_repo 4 False,
          sample_repo 5 False, sample_repo 6 True, sample_repo 7 False, sample_repo 8 False,
          sample_repo 9 False, sample_repo 10 False]"]
  by (simp add: listed_repos_def sample_repo_def)

subsection \<open>The readme images of a card\<close>

lemma repo_images_ok:
  "repo_images r (Resolved (Response True (Some doc))) =
     map (\<lambda>img. list_image_url r (the (getAttribute img ''src'')))
       (filter asset_image (querySelectorAll_img doc))"
  by (simp add: repo_images_def readme_urls_Inr)

lemma asset_image_iff:
  "asset_image img \<longleftrightarrow>
     (\<exists>src pre post. getAttribute img ''src'' = Some src \<and> src = pre @ ''/assets/'' @ post)"
  by (auto simp: asset_image_def str_includes_iff split: option.splits)

text \<open>
  Claim C3. In the list context the image filter keeps exactly the image elements whose
  \<open>src\<close> attribute exists and contains \<open>/assets/\<close>, in document order, and the published
  URLs are those of the kept images, one for one. In the sample readme, which has two such
  images among four others, exactly those two are kept, in document order.
\<close>

theorem list_filter_keeps_assets_images:
  "filter asset_image (querySelectorAll_img doc) =
     [img \<leftarrow> querySelectorAll_img doc.
        \<exists>src pre post. getAttribute img ''src'' = Some src \<and> src = pre @ ''/assets/'' @ post]
   \<and> list_all2 (\<lambda>img url. \<exists>src. getAttribute img ''src'' = Some src \<and> url = list_image_url r src)
        (filter asset_image (querySelectorAll_img doc))
        (repo_images r (Resolved (Response True (Some doc))))
   \<and> filter asset_image (querySelectorAll_img sample_readme) =
        [img_src ''/assets/home.png'', img_src ''docs/assets/detail.png'']"
proof (intro conjI)
  show "filter asset_image (querySelectorAll_img doc) =
     [img \<leftarrow> querySelectorAll_img doc.
        \<exists>src pre post. getAttribute img ''src'' = Some src \<and> src = pre @ ''/assets/'' @ post]"
    by (rule filter_cong) (simp_all add: asset_image_iff)
  show "list_all2 (\<lambda>img url. \<exists>src. getAttribute img ''src'' = Some src \<and> url = list_image_url r src)
        (filter asset_image (querySelectorAll_img doc))
        (repo_images r (Resolved (Response True (Some doc))))"
    unfolding repo_images_ok list_all2_map2
    by (auto simp: list_all2_same dest: asset_image_src)
  show "filter asset_image (querySelectorAll_img sample_readme) =
        [img_src ''/assets/home.png'', img_src ''docs/assets/detail.png'']"
    by (simp add: sample_readme_def img_src_def querySelectorAll_img_def asset_image_def
        str_startsWith_def)
qed

text \<open>
  Claim C1, on the code. In the list context the rewrite has no test for an absolute URL and
  strips a leading \<open>/\<close> only: an absolute source is prefixed with the raw-content address
  instead of being returned unchanged, and a leading \<open>./\<close> stays in the path.
\<close>

theorem list_context_rewrites_absolute_url:
  "repo_images (sample_repo 1 False)
      (Resolved (Response True (Some [img_src ''https://example.com/assets/shot.png''])))
     = [''https://raw.githubusercontent.com/tyler-bravin/demo/main/https://example.com/assets/shot.png'']
   \<and> repo_images (sample_repo 1 False)
      (Resolved (Response True (Some [img_src ''./assets/shot.png''])))
     = [''https://raw.githubusercontent.com/tyler-bravin/demo/main/./assets/shot.png'']"
  by (simp add: repo_images_def readme_urls_def querySelectorAll_img_def img_src_def asset_image_def
      corrected_url_def list_image_url_def GITHUB_USERNAME_def defaultBranch_def sample_repo_def
      replace_leading_slash_def str_startsWith_def)

text \<open>
  Claim C4, on the code. In the list context the rewrite applied to its own output prefixes
  the raw-content address a second time, so the result differs from the first output.
\<close>

theorem list_rewrite_applied_twice:
  "list_image_url (sample_repo 1 False) ''/assets/shot.png''
     = ''https://raw.githubusercontent.com/tyler-bravin/demo/main/assets/shot.png''
   \<and> list_image_url (sample_repo 1 False) (list_image_url (sample_repo 1 False) ''/assets/shot.png'')
     = ''https://raw.githubusercontent.com/tyler-bravin/demo/main/https://raw.githubusercontent.com/tyler-bravin/demo/main/assets/shot.png''"
  by (simp add: list_image_url_def GITHUB_USERNAME_def defaultBranch_def sample_repo_def
      replace_leading_slash_def str_startsWith_def)


subsection \<open>The published list\<close>

lemma promise_all_map_Some: "promise_all (map (\<lambda>x. Some (f x)) xs) = Some (map f xs)"
  by (induction xs) auto

lemma promise_all_pending: "None \<in> set ps \<Longrightarrow> promise_all ps = None"
  by (induction ps) (auto split: option.splits)

lemma promise_all_settled_list:
  "(\<forall>x \<in> set xs. \<exists>v. p x = Some v) \<Longrightarrow>
   promise_all (map (\<lambda>i. map_option (f i) (p i)) xs) = Some (map (\<lambda>i. f i (the (p i))) xs)"
  by (induction xs) auto

lemma promise_all_settled:
  "(\<And>i. i < n \<Longrightarrow> \<exists>v. p i = Some v) \<Longrightarrow>
   promise_all (map (\<lambda>i. map_option (f i) (p i)) [0..<n]) = Some (map (\<lambda>i. f i (the (p i))) [0..<n])"
  by (rule promise_all_settled_list) simp

lemma with_images_fields:
  "repo.truncate (with_images r out) = r \<and> imageUrls (with_images r out) = repo_images r out"
  by (cases r) (simp add: with_images_def repo.defs repo_with_images.defs)

lemma repo_images_failed:
  "out = Rejected \<or> (\<exists>resp. out = Resolved resp \<and> (\<not> ok resp \<or> body resp = None)) \<Longrightarrow>
   repo_images r out = []"
  by (auto simp: repo_images_def)

text \<open>
  Claim C5. In the list context nothing is published while a readme request is in flight.
  Once all have settled, the published list has one entry for each listed repository, in
  order, with the repository's own fields; its image set is computed from its own readme
  outcome alone, and it is empty when that request was rejected, was answered with a
  non-success status, or had an unreadable body.
\<close>

theorem failed_readme_keeps_repo_in_list:
  assumes listing: "listing = Some (Resolved (Response k (Some (RepoArray data))))"
    and st': "st' = fetchReposAndImages listing readme st"
  shows "((\<exists>i < length (listed_repos data). readme i = None) \<longrightarrow> st' = st)
    \<and> ((\<forall>i < length (listed_repos data). \<exists>out. readme i = Some out) \<longrightarrow>
          loading st' = False
        \<and> length (repos st') = length (listed_repos data)
        \<and> (\<forall>i < length (listed_repos data). \<forall>out. readme i = Some out \<longrightarrow>
              repo.truncate (repos st' ! i) = listed_repos data ! i
            \<and> imageUrls (repos st' ! i) = repo_images (listed_repos data ! i) out
            \<and> (out = Rejected \<or> (\<exists>resp. out = Resolved resp \<and> (\<not> ok resp \<or> body resp = None))
                 \<longrightarrow> imageUrls (repos st' ! i) = [])))"
proof (intro conjI impI)
  assume "\<exists>i < length (listed_repos data). readme i = None"
  then obtain i where i: "i < length (listed_repos data)" "readme i = None" by blast
  have "None \<in> set (map (\<lambda>i. map_option (with_images (listed_repos data ! i)) (readme i))
                      [0..<length (listed_repos data)])"
    using i by (force simp: image_iff)
  then show "st' = st"
    unfolding st' listing by (simp add: fetchReposAndImages_def promise_all_pending Let_def)
next
  assume all: "\<forall>i < length (listed_repos data). \<exists>out. readme i = Some out"
  have pub: "st' = st\<lparr>repos := map (\<lambda>i. with_images (listed_repos data ! i) (the (readme i)))
                               [0..<length (listed_repos data)],
                     loading := False\<rparr>"
    unfolding st' listing using all
    by (simp add: fetchReposAndImages_def promise_all_settled Let_def)
  show "loading st' = False" by (simp add: pub)
  show "length (repos st') = length (listed_repos data)" by (simp add: pub)
  show "\<forall>i < length (listed_repos data). \<forall>out. readme i = Some out \<longrightarrow>
              repo.truncate (repos st' ! i) = listed_repos data ! i
            \<and> imageUrls (repos st' ! i) = repo_images (listed_repos data ! i) out
            \<and> (out = Rejected \<or> (\<exists>resp. out = Resolved resp \<and> (\<not> ok resp \<or> body resp = None))
                 \<longrightarrow> imageUrls (repos st' ! i) = [])"
    by (simp add: pub with_images_fields repo_images_failed)
qed


lemma sample_listing_listed:
  "listed_repos sample_listing =
     [sample_repo 1 False, sample_repo 2 False, sample_repo 3 False,
      sample_repo 5 False, sample_repo 6 False, sample_repo 7 False]"
  by (simp add: listed_repos_def sample_listing_def sample_repo_def)

lemma sample_readme_images:
  "repo_images (sample_repo n False) (Resolved (Response True (Some sample_readme))) =
     [''https://raw.githubusercontent.com/tyler-bravin/demo/main/assets/home.png'',
      ''https://raw.githubusercontent.com/tyler-bravin/demo/main/docs/assets/detail.png'']"
  by (simp add: repo_images_def readme_urls_def querySelectorAll_img_def sample_readme_def
      img_src_def asset_image_def corrected_url_def list_image_url_def GITHUB_USERNAME_def
      defaultBranch_def sample_repo_def replace_leading_slash_def str_startsWith_def)

theorem failed_readme_keeps_repo_in_list_witness:
  "length (repos (fetchReposAndImages (Some (Resolved (Response True (Some (RepoArray sample_listing)))))
             sample_readmes projects_initial)) = 6
   \<and> repo.truncate (repos (fetchReposAndImages (Some (Resolved (Response True (Some (RepoArray sample_listing)))))
             sample_readmes projects_initial) ! 2) = sample_repo 3 False
   \<and> imageUrls (repos (fetchReposAndImages (Some (Resolved (Response True (Some (RepoArray sample_listing)))))
             sample_readmes projects_initial) ! 2) = []
   \<and> imageUrls (repos (fetchReposAndImages (Some (Resolved (Response True (Some (RepoArray sample_listing)))))
             sample_readmes projects_initial) ! 3)
       = [''https://raw.githubusercontent.com/tyler-bravin/demo/main/assets/home.png'',
          ''https://raw.githubusercontent.com/tyler-bravin/demo/main/docs/assets/detail.png'']
   \<and> fetchReposAndImages (Some (Resolved (Response True (Some (RepoArray sample_listing)))))
         (sample_readmes(5 := None)) projects_initial = projects_initial"
proof -
  let ?s = "fetchReposAndImages (Some (Resolved (Response True (Some (RepoArray sample_listing)))))
              sample_readmes projects_initial"
  have len: "length (listed_repos sample_listing) = 6"
    by (simp add: sample_listing_listed)
  have settled: "\<forall>i < length (listed_repos sample_listing). \<exists>out. sample_readmes i = Some out"
    by (simp add: sample_readmes_def)
  have pending: "\<exists>i < length (listed_repos sample_listing). (sample_readmes(5 := None)) i = None"
    unfolding len by (rule exI [of _ 5]) simp
  have failed: "sample_readmes 2 = Some (Resolved (Response False (Some [Text not_found_body])))"
    and fine: "sample_readmes 3 = Some (Resolved (Response True (Some sample_readme)))"
    by (simp_all add: sample_readmes_def)
  note published = failed_readme_keeps_repo_in_list [where k = True and data = sample_listing
        and readme = sample_readmes and st = projects_initial, OF refl refl, THEN conjunct2,
        THEN mp, OF settled]
  note unpublished = failed_readme_keeps_repo_in_list [where k = True and data = sample_listing
        and readme = "sample_readmes(5 := None)" and st = projects_initial, OF refl refl,
        THEN conjunct1, THEN mp, OF pending]
  have l: "length (repos ?s) = 6"
    using published len by simp
  have each: "i < 6 \<Longrightarrow> sample_readmes i = Some out \<Longrightarrow>
      repo.truncate (repos ?s ! i) = listed_repos sample_listing ! i
      \<and> imageUrls (repos ?s ! i) = repo_images (listed_repos sample_listing ! i) out" for i out
    using published len by simp
  have a: "repo.truncate (repos ?s ! 2) = sample_repo 3 False"
    and b: "imageUrls (repos ?s ! 2) = []"
    using each [OF _ failed] by (simp_all add: sample_listing_listed repo_images_def)
  have c: "imageUrls (repos ?s ! 3)
       = [''https://raw.githubusercontent.com/tyler-bravin/demo/main/assets/home.png'',
          ''https://raw.githubusercontent.com/tyler-bravin/demo/main/docs/assets/detail.png'']"
    using each [OF _ fine] by (simp add: sample_listing_listed sample_readme_images)
  show ?thesis
    using l a b c unpublished by simp
qed




subsection \<open>The readme of the modal\<close>

lemma correct_src_Inl:
  "correct_src r n = Inl e \<longleftrightarrow> getAttribute n ''src'' = None"
  by (cases e) (auto simp: correct_src_def split: option.splits)

lemma correct_src_Inr_shape:
  "correct_src r (Element tag attrs kids) = Inr el \<Longrightarrow> \<exists>attrs'. el = Element tag attrs' kids"
  by (auto simp: correct_src_def split: option.splits if_splits)

lemma correct_faults:
  "(\<exists>i \<in> set (img_elements n). getAttribute i ''src'' = None) \<Longrightarrow> correct_node r n = Inl TypeError"
  "(\<exists>i \<in> set (querySelectorAll_img ns). getAttribute i ''src'' = None) \<Longrightarrow>
     correct_nodes r ns = Inl TypeError"
proof (induction r n and r ns rule: correct_node_correct_nodes.induct)
  case (1 r t)
  then show ?case by simp
next
  case (2 r tag attrs kids)
  show ?case
  proof (cases "tag = ''img'' \<and> map_of attrs ''src'' = None")
    case True
    then show ?thesis by (simp add: correct_src_def)
  next
    case False
    with "2.prems" have k: "\<exists>i \<in> set (querySelectorAll_img kids). getAttribute i ''src'' = None"
      by (auto simp: querySelectorAll_img_def split: if_splits)
    have "\<exists>el. (if tag = ''img'' then correct_src r (Element tag attrs kids)
            else Inr (Element tag attrs kids)) = Inr el"
      using False by (auto simp: correct_src_def split: option.splits)
    then obtain el where el: "(if tag = ''img'' then correct_src r (Element tag attrs kids)
            else Inr (Element tag attrs kids)) = Inr el" ..
    from "2.IH" [OF el k] el show ?thesis by simp
  qed
next
  case (3 r)
  then show ?case by (simp add: querySelectorAll_img_def)
next
  case (4 r n ns)
  show ?case
  proof (cases "correct_node r n")
    case (Inl e)
    then show ?thesis by (cases e) simp
  next
    case (Inr n')
    with "4.IH"(1) "4.prems" have "\<exists>i \<in> set (querySelectorAll_img ns). getAttribute i ''src'' = None"
      by (auto simp: querySelectorAll_img_def)
    from "4.IH"(2) [OF Inr this] Inr show ?thesis by simp
  qed
qed

text \<open>
  Claim C10. In the detail context, when the fetched readme contains an image element with
  no \<open>src\<close> attribute, the published document is the placeholder, whatever the status of
  the response, and so none of the readme's images is published.
\<close>

theorem image_without_src_gives_placeholder:
  assumes "\<exists>i \<in> set (querySelectorAll_img doc). getAttribute i ''src'' = None"
  shows "fetchReadme r (Resolved (Response k (Some doc))) = placeholder
    \<and> querySelectorAll_img (fetchReadme r (Resolved (Response k (Some doc)))) = []"
  using correct_faults(2) [OF assms, of r]
  by (simp add: fetchReadme_def placeholder_def querySelectorAll_img_def)

theorem image_without_src_gives_placeholder_witness:
  "fetchReadme (sample_repo 1 False) (Resolved (Response True (Some sample_readme))) = placeholder
   \<and> querySelectorAll_img (fetchReadme (sample_repo 1 False)
        (Resolved (Response True (Some sample_readme)))) = []
   \<and> length (querySelectorAll_img sample_readme) = 6"
proof -
  have "Element ''img'' [(''alt'', ''logo'')] [] \<in> set (querySelectorAll_img sample_readme)"
    by (simp add: sample_readme_def querySelectorAll_img_def img_src_def)
  moreover have "getAttribute (Element ''img'' [(''alt'', ''logo'')] []) ''src'' = None"
    by simp
  ultimately have "\<exists>i \<in> set (querySelectorAll_img sample_readme). getAttribute i ''src'' = None"
    by blast
  from image_without_src_gives_placeholder [OF this, of "sample_repo 1 False" True]
  show ?thesis
    by (simp add: sample_readme_def querySelectorAll_img_def img_src_def)
qed

text \<open>
  The status of the response plays no part in \<open>fetchReadme\<close>; only a request or a body
  that never arrives gives the placeholder.
\<close>

lemma fetchReadme_ignores_ok:
  "fetchReadme r (Resolved (Response False b)) = fetchReadme r (Resolved (Response True b))"
  by (simp add: fetchReadme_def)

lemma fetchReadme_no_response:
  "fetchReadme r Rejected = placeholder"
  "fetchReadme r (Resolved (Response k None)) = placeholder"
  by (simp_all add: fetchReadme_def)

text \<open>
  Claim C6, on the code. In the detail context a response with a non-success status is read
  and published like a readme: for the API's \<open>Not Found\<close> body the published document is
  that body, not the placeholder.
\<close>

theorem detail_fetcher_publishes_error_body:
  "fetchReadme (sample_card 1) (Resolved (Response False (Some [Text not_found_body])))
     = [Text not_found_body]
   \<and> [Text not_found_body] \<noteq> placeholder"
  by (simp add: fetchReadme_def placeholder_def)

text \<open>
  The rewrite of the modal on one image: a source that does not start with \<open>http\<close>
  becomes the raw-content address of the path without its leading \<open>./\<close> or \<open>/\<close>, any
  other source is kept, and a second rewrite changes nothing, on an image and on a whole
  readme.
\<close>

lemma replace_leading_dot_slash_cases:
  "replace_leading_dot_slash (''./'' @ p) = p"
  "replace_leading_dot_slash (''/'' @ p) = p"
  "\<not> str_startsWith p ''./'' \<Longrightarrow> \<not> str_startsWith p ''/'' \<Longrightarrow> replace_leading_dot_slash p = p"
  by (simp_all add: replace_leading_dot_slash_def str_startsWith_def)

lemma correct_src_relative:
  "getAttribute img ''src'' = Some p \<Longrightarrow> \<not> str_startsWith p ''http'' \<Longrightarrow>
   correct_src r img =
     Inr (setAttribute img ''src''
            (''https://raw.githubusercontent.com/'' @ login (owner r) @ ''/'' @ name r @ ''/''
               @ defaultBranch r @ ''/'' @ replace_leading_dot_slash p))"
  by (simp add: correct_src_def detail_image_url_def)

lemma correct_src_absolute:
  "getAttribute img ''src'' = Some p \<Longrightarrow> str_startsWith p ''http'' \<Longrightarrow> correct_src r img = Inr img"
  by (simp add: correct_src_def)

lemma map_of_set_attr: "map_of (set_attr attrs a v) a = Some v"
  by (induction attrs a v rule: set_attr.induct) auto

lemma detail_image_url_absolute: "str_startsWith (detail_image_url r p) ''http''"
  by (simp add: detail_image_url_def str_startsWith_def)

lemma correct_src_idempotent:
  "correct_src r img = Inr img' \<Longrightarrow> correct_src r img' = Inr img'"
  by (cases img)
    (auto simp: correct_src_def map_of_set_attr detail_image_url_absolute
      split: option.splits if_splits)

lemma correct_idempotent:
  "\<forall>n'. correct_node r n = Inr n' \<longrightarrow> correct_node r n' = Inr n'"
  "\<forall>ns'. correct_nodes r ns = Inr ns' \<longrightarrow> correct_nodes r ns' = Inr ns'"
proof (induction r n and r ns rule: correct_node_correct_nodes.induct)
  case (1 r t)
  show ?case by simp
next
  case (2 r tag attrs kids)
  show ?case
  proof (intro allI impI)
    fix n'
    assume a: "correct_node r (Element tag attrs kids) = Inr n'"
    then obtain el where el: "(if tag = ''img'' then correct_src r (Element tag attrs kids)
            else Inr (Element tag attrs kids)) = Inr el"
      by (auto split: sum.splits)
    then obtain attrs' where shape: "el = Element tag attrs' kids"
      by (auto dest: correct_src_Inr_shape split: if_splits)
    from a el obtain kids' where kids': "correct_nodes r kids = Inr kids'"
      by (auto split: sum.splits)
    with a el shape have n': "n' = Element tag attrs' kids'" by simp
    have again: "(if tag = ''img'' then correct_src r (Element tag attrs' kids')
            else Inr (Element tag attrs' kids')) = Inr (Element tag attrs' kids')"
    proof (cases "tag = ''img''")
      case True
      with el shape have "correct_src r (Element tag attrs kids) = Inr (Element tag attrs' kids)"
        by simp
      then have "correct_src r (Element tag attrs' kids) = Inr (Element tag attrs' kids)"
        by (rule correct_src_idempotent)
      then have "correct_src r (Element tag attrs' kids') = Inr (Element tag attrs' kids')"
        by (auto simp: correct_src_def split: option.splits if_splits)
      with True show ?thesis by simp
    next
      case False
      then show ?thesis by simp
    qed
    from "2.IH" [OF el] kids' have "correct_nodes r kids' = Inr kids'" by simp
    with again show "correct_node r n' = Inr n'" by (simp add: n')
  qed
next
  case (3 r)
  show ?case by simp
next
  case (4 r n ns)
  show ?case
  proof (intro allI impI)
    fix ns'
    assume a: "correct_nodes r (n # ns) = Inr ns'"
    then obtain m where m: "correct_node r n = Inr m" by (auto split: sum.splits)
    with a obtain ms where ms: "correct_nodes r ns = Inr ms" by (auto split: sum.splits)
    with a m have "ns' = m # ms" by simp
    moreover from "4.IH"(1) m have "correct_node r m = Inr m" by simp
    moreover from "4.IH"(2) [OF m] ms have "correct_nodes r ms = Inr ms" by simp
    ultimately show "correct_nodes r ns' = Inr ns'" by simp
  qed
qed

lemma fetchReadme_rewrite_idempotent:
  "correct_nodes r doc = Inr doc' \<Longrightarrow>
   fetchReadme r (Resolved (Response k (Some doc'))) = fetchReadme r (Resolved (Response k (Some doc)))"
  using correct_idempotent(2) [of r doc] by (simp add: fetchReadme_def)

subsection \<open>The modal over time\<close>

lemma modal_run_snoc: "modal_run (evs @ [e]) = modal_step (modal_run evs) e"
  by (simp add: modal_run_def)

lemma modal_idle:
  "(\<And>r. RepoChanged (Some r) \<notin> set evs) \<Longrightarrow>
   repo_prop (modal_run evs) = None \<and> in_flight (modal_run evs) = []
   \<and> readmeHtml (modal_run evs) = []"
proof (induction evs rule: rev_induct)
  case Nil
  show ?case by (simp add: modal_run_def modal_initial_def)
next
  case (snoc e evs)
  then have ih: "repo_prop (modal_run evs) = None \<and> in_flight (modal_run evs) = []
      \<and> readmeHtml (modal_run evs) = []"
    by simp
  show ?case
  proof (cases e)
    case (RepoChanged ro)
    with snoc.prems have "ro = None" by (cases ro) auto
    with RepoChanged ih show ?thesis by (simp add: modal_run_snoc)
  next
    case (Settled i out)
    with ih show ?thesis by (simp add: modal_run_snoc)
  qed
qed

text \<open>
  While no repository has been selected, nothing is fetched and nothing is shown.
\<close>

lemma modal_idle_shows_nothing:
  "(\<And>r. RepoChanged (Some r) \<notin> set evs) \<Longrightarrow>
   in_flight (modal_run evs) = [] \<and> readme_content (modal_run evs) = None"
  using modal_idle [of evs] by (simp add: readme_content_def)

text \<open>
  Claim C9, on the code. The effect of \<open>ProjectModal\<close> has no cleanup, so the result of a
  request in flight for the previous repository is not discarded. The modal is opened on the
  first repository, closed, and opened on the second; the second's readme arrives and is
  shown; then the first's readme arrives and replaces it, so the modal shows the first
  repository's readme while the second repository is the selected one.
\<close>

theorem stale_readme_overwrites_selection:
  "readme_content (modal_run
      [RepoChanged (Some (named_card 1 ''first'')), RepoChanged None,
       RepoChanged (Some (named_card 2 ''second'')),
       Settled 1 (Resolved (Response True (Some [Text ''readme of second''])))])
     = Some [Text ''readme of second'']
   \<and> map_option name (repo_prop (modal_run
      [RepoChanged (Some (named_card 1 ''first'')), RepoChanged None,
       RepoChanged (Some (named_card 2 ''second'')),
       Settled 1 (Resolved (Response True (Some [Text ''readme of second'']))),
       Settled 0 (Resolved (Response True (Some [Text ''readme of first''])))]))
     = Some ''second''
   \<and> readmeHtml (modal_run
      [RepoChanged (Some (named_card 1 ''first'')), RepoChanged None,
       RepoChanged (Some (named_card 2 ''second'')),
       Settled 1 (Resolved (Response True (Some [Text ''readme of second'']))),
       Settled 0 (Resolved (Response True (Some [Text ''readme of first''])))])
     = [Text ''readme of first'']
   \<and> readme_content (modal_run
      [RepoChanged (Some (named_card 1 ''first'')), RepoChanged None,
       RepoChanged (Some (named_card 2 ''second'')),
       Settled 1 (Resolved (Response True (Some [Text ''readme of second'']))),
       Settled 0 (Resolved (Response True (Some [Text ''readme of first''])))])
     = Some [Text ''readme of first'']"
  by (simp add: modal_run_def modal_initial_def fetchReadme_def readme_content_def
      named_card_def with_images_def sample_repo_def repo.defs repo_with_images.defs)

subsection \<open>The language tags\<close>



lemma not_index_letter: "digit_value c \<ge> 10 \<Longrightarrow> \<not> is_array_index (c # cs)"
  by (simp add: is_array_index_def)





text \<open>
  Claim C8, on the code. For a non-success response the Language Tagger decodes the error
  object like a language mapping: its keys become the tags, and they are rendered.
\<close>

theorem language_tagger_exposes_error_keys:
  "fetchLanguages (Resolved (Response False (Some (JObject
       [(''message'', JString ''Not Found''),
        (''documentation_url'', JString ''https://docs.github.com/rest''),
        (''status'', JString ''404'')])))) []
     = [''message'', ''documentation_url'', ''status'']
   \<and> RepoLanguages [''message'', ''documentation_url'', ''status'']
     = Some (Element ''ul'' [(''class'', ''project-tags'')]
         [Element ''li'' [] [Text ''message''], Element ''li'' [] [Text ''documentation_url''],
          Element ''li'' [] [Text ''status'']])"
  by (simp add: fetchLanguages_def RepoLanguages_def not_index_letter digit_value_def)

text \<open>
  A request that is rejected, a body that cannot be decoded and the body \<open>null\<close> leave the
  tags as they were.
\<close>

lemma fetchLanguages_failures:
  "fetchLanguages Rejected languages = languages"
  "fetchLanguages (Resolved (Response k None)) languages = languages"
  "fetchLanguages (Resolved (Response k (Some JNull))) languages = languages"
  by (simp_all add: fetchLanguages_def)


end
